theory Spec2Isabelle
  imports Main
begin

section \<open>Python values the script handles\<close>

text \<open>
  The script reads the dictionaries that the provider's client returns. A key the
  script reads with a subscript (\<^verbatim>\<open>instance['InstanceId']\<close>) is a field of the
  record below; a key it reads with \<^verbatim>\<open>get\<close> or tests with \<^verbatim>\<open>in\<close> is an
  optional field. A dictionary without a key of the first kind, on which the script
  would raise \<^verbatim>\<open>KeyError\<close>, is outside these types. A dictionary the script builds
  itself is an association list in insertion order.
\<close>

text \<open>A datetime, kept as the text \<^verbatim>\<open>str()\<close> gives for it.\<close>

datatype datetime = Datetime string

primrec str_datetime :: "datetime \<Rightarrow> string" where
  "str_datetime (Datetime s) = s"

text \<open>An exception, kept as the text \<^verbatim>\<open>str(e)\<close> gives for it.\<close>

datatype exn = Exception string

primrec str_exn :: "exn \<Rightarrow> string" where
  "str_exn (Exception s) = s"

text \<open>A value that is a number from the provider or the text the script puts in its place.\<close>

datatype scalar = IntVal int | StrVal string

definition digit_char :: "nat \<Rightarrow> char" where
  "digit_char d = ''0123456789'' ! d"

fun str_nat :: "nat \<Rightarrow> string" where
  "str_nat n = (if n < 10 then [digit_char n] else str_nat (n div 10) @ [digit_char (n mod 10)])"

declare str_nat.simps [simp del]

definition str_int :: "int \<Rightarrow> string" where
  "str_int i = (if i < 0 then CHR ''-'' # str_nat (nat (- i)) else str_nat (nat i))"

definition str_bool :: "bool \<Rightarrow> string" where
  "str_bool b = (if b then ''True'' else ''False'')"

primrec str_scalar :: "scalar \<Rightarrow> string" where
  "str_scalar (IntVal i) = str_int i"
| "str_scalar (StrVal s) = s"

text \<open>
  \<^verbatim>\<open>d[k] = v\<close> on a dictionary: an existing key keeps its place and takes the new
  value, a new key goes to the end.
\<close>

fun dict_set :: "('k \<times> 'v) list \<Rightarrow> 'k \<Rightarrow> 'v \<Rightarrow> ('k \<times> 'v) list" where
  "dict_set [] k v = [(k, v)]"
| "dict_set ((k', v') # d) k v = (if k' = k then (k, v) # d else (k', v') # dict_set d k v)"

text \<open>\<^verbatim>\<open>k in d\<close> and \<^verbatim>\<open>d[k]\<close> are \<open>map_of d k\<close>: \<open>None\<close> when the key is absent.\<close>

abbreviation dict_get :: "('k \<times> 'v) list \<Rightarrow> 'k \<Rightarrow> 'v option" where
  "dict_get d k \<equiv> map_of d k"

text \<open>Truth value of an optional text: \<^verbatim>\<open>None\<close> and the empty text are false.\<close>

fun truthy :: "string option \<Rightarrow> bool" where
  "truthy None = False"
| "truthy (Some s) = (s \<noteq> [])"

section \<open>The provider's records\<close>

text \<open>An element of \<^verbatim>\<open>response['Volumes']\<close>.\<close>

record volume =
  vol_VolumeId :: string
  vol_Size :: int
  vol_VolumeType :: string
  vol_State :: string
  vol_Encrypted :: bool
  vol_Iops :: "int option"
  vol_Throughput :: "int option"
  vol_SnapshotId :: "string option"
  vol_AvailabilityZone :: string
  vol_CreateTime :: datetime

text \<open>The dictionary \<^verbatim>\<open>get_volume_details\<close> builds for one volume.\<close>

record volume_record =
  Size :: int
  VolumeType :: string
  State :: string
  Encrypted :: bool
  Iops :: scalar
  Throughput :: scalar
  SnapshotId :: string
  AvailabilityZone :: string
  CreateTime :: datetime

type_synonym volume_dict = "(string \<times> volume_record) list"

record tag =
  Key :: string
  Value :: string

record security_group =
  GroupName :: string
  GroupId :: string

text \<open>\<^verbatim>\<open>bdm['Ebs']\<close>, of which the script reads \<^verbatim>\<open>VolumeId\<close> only.\<close>

record ebs =
  VolumeId :: string

record bdm =
  DeviceName :: string
  Ebs :: "ebs option"

text \<open>
  An instance. \<open>State_Name\<close> is \<^verbatim>\<open>instance['State']['Name']\<close> and
  \<open>Placement_AvailabilityZone\<close> is \<^verbatim>\<open>instance['Placement']['AvailabilityZone']\<close>.
  \<open>VolumeDetails\<close> is the key the script adds.
\<close>

record instance_record =
  InstanceId :: string
  InstanceType :: string
  State_Name :: string
  LaunchTime :: datetime
  Architecture :: string
  Platform :: "string option"
  VpcId :: string
  SubnetId :: string
  PrivateIpAddress :: string
  PublicIpAddress :: "string option"
  PrivateDnsName :: string
  PublicDnsName :: "string option"
  SecurityGroups :: "security_group list"
  Tags :: "tag list option"
  BlockDeviceMappings :: "bdm list option"
  Placement_AvailabilityZone :: string
  KeyName :: "string option"
  VolumeDetails :: "volume_dict option"

text \<open>An element of \<^verbatim>\<open>response['Reservations']\<close>.\<close>

record reservation =
  Instances :: "instance_record list"

record filter_spec =
  Name :: string
  Values :: "string list"

text \<open>
  The client: each call returns the list under the response's key, or raises.
\<close>

record ec2_client =
  describe_instances :: "filter_spec list \<Rightarrow> exn + reservation list"
  describe_volumes :: "string list \<Rightarrow> exn + volume list"

text \<open>The object \<^verbatim>\<open>main\<close> hands to \<^verbatim>\<open>json.dump\<close>.\<close>

record output_data =
  search_query :: string
  region :: string
  timestamp :: "string option"
  instance_count :: nat
  instances :: "instance_record list"

text \<open>
  What a run does to the outside, in order: a line printed, a call of the client, the
  file opened and written.
\<close>

datatype event =
  Print string
  | Call_describe_instances "filter_spec list"
  | Call_describe_volumes "string list"
  | Json_dump string output_data

text \<open>
  The outside: \<^verbatim>\<open>boto3.client('ec2', region_name=r)\<close> gives a client or raises;
  \<^verbatim>\<open>open(path, 'w')\<close> succeeds or raises.
\<close>

record env =
  boto3_client :: "string \<Rightarrow> exn + ec2_client"
  open_w :: "string \<Rightarrow> exn option"

section \<open>\<^verbatim>\<open>get_volume_details\<close>\<close>

text \<open>The dictionary built for one volume (lines 39 to 49).\<close>

definition volume_entry :: "volume \<Rightarrow> volume_record" where
  "volume_entry v =
    \<lparr> Size = vol_Size v,
      VolumeType = vol_VolumeType v,
      State = vol_State v,
      Encrypted = vol_Encrypted v,
      Iops = (case vol_Iops v of None \<Rightarrow> StrVal ''N/A'' | Some n \<Rightarrow> IntVal n),
      Throughput = (case vol_Throughput v of None \<Rightarrow> StrVal ''N/A'' | Some n \<Rightarrow> IntVal n),
      SnapshotId = (case vol_SnapshotId v of None \<Rightarrow> ''N/A'' | Some s \<Rightarrow> s),
      AvailabilityZone = vol_AvailabilityZone v,
      CreateTime = vol_CreateTime v \<rparr>"

text \<open>The loop over \<^verbatim>\<open>response['Volumes']\<close> (line 38), from the dictionary so far.\<close>

fun volumes_loop :: "volume_dict \<Rightarrow> volume list \<Rightarrow> volume_dict" where
  "volumes_loop volume_details [] = volume_details"
| "volumes_loop volume_details (v # vs) =
     volumes_loop (dict_set volume_details (vol_VolumeId v) (volume_entry v)) vs"

text \<open>
  The events of the call and the dictionary returned. The \<^verbatim>\<open>except\<close> clause
  turns a failed call into a warning and the dictionary as it is then.
\<close>

definition get_volume_details :: "ec2_client \<Rightarrow> string list \<Rightarrow> event list \<times> volume_dict" where
  "get_volume_details ec2 volume_ids =
    (if volume_ids = [] then ([], [])
     else case describe_volumes ec2 volume_ids of
       Inr vols \<Rightarrow> ([Call_describe_volumes volume_ids], volumes_loop [] vols)
     | Inl e \<Rightarrow>
         ([Call_describe_volumes volume_ids,
           Print (''Warning: Could not retrieve volume details: '' @ str_exn e)], []))"

section \<open>\<^verbatim>\<open>get_ec2_details\<close>\<close>

text \<open>
  The region used: \<^verbatim>\<open>region\<close> when it is true (lines 60 to 63), as
  \<^verbatim>\<open>args.region or "ap-southeast-2"\<close> of line 236.
\<close>

abbreviation region_or_default :: "string option \<Rightarrow> string" where
  "region_or_default r \<equiv> (if truthy r then the r else ''ap-southeast-2'')"

text \<open>The filters of the query (lines 68 to 77).\<close>

definition query_filters :: "string \<Rightarrow> filter_spec list" where
  "query_filters server_name =
    [\<lparr> Name = ''tag:Name'', Values = [server_name] \<rparr>,
     \<lparr> Name = ''instance-state-name'',
       Values = [''running'', ''stopped'', ''stopping'', ''pending'', ''shutting-down''] \<rparr>]"

text \<open>Lines 80 to 83: the two nested loops that append every instance.\<close>

fun append_instances :: "instance_record list \<Rightarrow> instance_record list \<Rightarrow> instance_record list" where
  "append_instances acc [] = acc"
| "append_instances acc (i # is) = append_instances (acc @ [i]) is"

fun flatten_reservations :: "instance_record list \<Rightarrow> reservation list \<Rightarrow> instance_record list" where
  "flatten_reservations acc [] = acc"
| "flatten_reservations acc (r # rs) =
     flatten_reservations (append_instances acc (Instances r)) rs"

text \<open>\<^verbatim>\<open>instance.get('BlockDeviceMappings', [])\<close>.\<close>

definition get_bdms :: "instance_record \<Rightarrow> bdm list" where
  "get_bdms i = (case BlockDeviceMappings i of None \<Rightarrow> [] | Some bs \<Rightarrow> bs)"

text \<open>Lines 94 to 98: the volume identifiers of all attachments that have \<^verbatim>\<open>Ebs\<close>.\<close>

fun bdm_volume_ids :: "string list \<Rightarrow> bdm list \<Rightarrow> string list" where
  "bdm_volume_ids acc [] = acc"
| "bdm_volume_ids acc (b # bs) =
     (case Ebs b of
        Some e \<Rightarrow> bdm_volume_ids (acc @ [VolumeId e]) bs
      | None \<Rightarrow> bdm_volume_ids acc bs)"

fun collect_volume_ids :: "string list \<Rightarrow> instance_record list \<Rightarrow> string list" where
  "collect_volume_ids acc [] = acc"
| "collect_volume_ids acc (i # is) = collect_volume_ids (bdm_volume_ids acc (get_bdms i)) is"

text \<open>Lines 105 to 110: the dictionary put under \<^verbatim>\<open>VolumeDetails\<close> of one instance.\<close>

fun bdm_details :: "volume_dict \<Rightarrow> volume_dict \<Rightarrow> bdm list \<Rightarrow> volume_dict" where
  "bdm_details volume_details d [] = d"
| "bdm_details volume_details d (b # bs) =
     (case Ebs b of
        Some e \<Rightarrow>
          (case dict_get volume_details (VolumeId e) of
             Some r \<Rightarrow> bdm_details volume_details (dict_set d (VolumeId e) r) bs
           | None \<Rightarrow> bdm_details volume_details d bs)
      | None \<Rightarrow> bdm_details volume_details d bs)"

definition add_volume_details :: "volume_dict \<Rightarrow> instance_record \<Rightarrow> instance_record" where
  "add_volume_details volume_details i =
     i\<lparr> VolumeDetails := Some (bdm_details volume_details [] (get_bdms i)) \<rparr>"

text \<open>
  The whole function: the events, then the exception that leaves it or the value
  returned (\<open>None\<close> is Python's \<^verbatim>\<open>None\<close>). The client is made before the
  \<^verbatim>\<open>try\<close>, so its exception leaves the function.
\<close>

definition get_ec2_details ::
  "env \<Rightarrow> string \<Rightarrow> string option \<Rightarrow> event list \<times> (exn + instance_record list option)" where
  "get_ec2_details w server_name region_arg =
    (case boto3_client w (region_or_default region_arg) of
       Inl e \<Rightarrow> ([], Inl e)
     | Inr ec2 \<Rightarrow>
        (case describe_instances ec2 (query_filters server_name) of
           Inl e \<Rightarrow>
             ([Call_describe_instances (query_filters server_name),
               Print (''Error retrieving EC2 details: '' @ str_exn e)], Inr None)
         | Inr reservations \<Rightarrow>
            (let insts = flatten_reservations [] reservations in
             if insts = [] then
               ([Call_describe_instances (query_filters server_name),
                 Print (''No EC2 instances found with name: '' @ server_name)], Inr None)
             else
               (let found =
                      (if length insts > 1 then
                         [Print (''Found '' @ str_nat (length insts) @
                                 '' instances with name: '' @ server_name),
                          Print ''Showing details for all instances:'']
                       else []);
                    all_volume_ids = collect_volume_ids [] insts;
                    (fetch, volume_details) = get_volume_details ec2 all_volume_ids
                in (Call_describe_instances (query_filters server_name) # found @ fetch,
                    Inr (Some (map (add_volume_details volume_details) insts)))))))"

section \<open>\<^verbatim>\<open>format_ec2_details\<close>\<close>

text \<open>
  \<open>Print s\<close> is \<^verbatim>\<open>print(s)\<close>: the text \<open>s\<close> and a line end. The header of
  line 124 starts with a line feed of its own.
\<close>

definition header_lines :: "nat \<Rightarrow> nat \<Rightarrow> event list" where
  "header_lines n i =
    (if n > 1 then
       [Print (CHR 0x0A # replicate 50 CHR ''=''),
        Print (''INSTANCE '' @ str_nat i @ '' of '' @ str_nat n),
        Print (replicate 50 CHR ''='')]
     else [])"

definition basic_lines :: "instance_record \<Rightarrow> event list" where
  "basic_lines i =
    [Print (''Instance ID: '' @ InstanceId i),
     Print (''Instance Type: '' @ InstanceType i),
     Print (''State: '' @ State_Name i),
     Print (''Launch Time: '' @ str_datetime (LaunchTime i)),
     Print (''Architecture: '' @ Architecture i),
     Print (''Platform: '' @ (case Platform i of None \<Rightarrow> ''Linux/Unix'' | Some p \<Rightarrow> p))]"

definition network_lines :: "instance_record \<Rightarrow> event list" where
  "network_lines i =
    [Print (CHR 0x0A # ''Network Details:''),
     Print (''  VPC ID: '' @ VpcId i),
     Print (''  Subnet ID: '' @ SubnetId i),
     Print (''  Private IP: '' @ PrivateIpAddress i)] @
    (if truthy (PublicIpAddress i) then [Print (''  Public IP: '' @ the (PublicIpAddress i))]
     else []) @
    [Print (''  Private DNS: '' @ PrivateDnsName i)] @
    (if truthy (PublicDnsName i) then [Print (''  Public DNS: '' @ the (PublicDnsName i))]
     else [])"

definition security_group_lines :: "instance_record \<Rightarrow> event list" where
  "security_group_lines i =
    Print (CHR 0x0A # ''Security Groups:'') #
    map (\<lambda>sg. Print (''  - '' @ GroupName sg @ '' ('' @ GroupId sg @ '')'')) (SecurityGroups i)"

definition tag_lines :: "instance_record \<Rightarrow> event list" where
  "tag_lines i =
    Print (CHR 0x0A # ''Tags:'') #
    (case Tags i of
       Some ts \<Rightarrow> map (\<lambda>t. Print (''  '' @ Key t @ '': '' @ Value t)) ts
     | None \<Rightarrow> [Print ''  No tags found''])"

text \<open>\<^verbatim>\<open>instance.get('VolumeDetails', {}).get(volume_id, {})\<close>, \<open>None\<close> for the empty dictionary.\<close>

definition get_volume_info :: "instance_record \<Rightarrow> string \<Rightarrow> volume_record option" where
  "get_volume_info i volume_id =
    (case VolumeDetails i of None \<Rightarrow> None | Some d \<Rightarrow> dict_get d volume_id)"

definition bdm_lines :: "instance_record \<Rightarrow> bdm \<Rightarrow> event list" where
  "bdm_lines i b =
    (case Ebs b of
       Some e \<Rightarrow>
         (case get_volume_info i (VolumeId e) of
            Some volume_info \<Rightarrow>
              [Print (''  '' @ DeviceName b @ '': '' @ VolumeId e),
               Print (''    Size: '' @ str_int (Size volume_info) @ '' GB''),
               Print (''    Type: '' @ VolumeType volume_info),
               Print (''    State: '' @ State volume_info),
               Print (''    Encrypted: '' @ str_bool (Encrypted volume_info))] @
              (if Iops volume_info \<noteq> StrVal ''N/A''
               then [Print (''    IOPS: '' @ str_scalar (Iops volume_info))] else []) @
              (if Throughput volume_info \<noteq> StrVal ''N/A''
               then [Print (''    Throughput: '' @ str_scalar (Throughput volume_info) @ '' MB/s'')]
               else [])
          | None \<Rightarrow>
              [Print (''  '' @ DeviceName b @ '': '' @ VolumeId e @ '' (details unavailable)'')])
     | None \<Rightarrow> [Print (''  '' @ DeviceName b @ '': Instance store volume'')])"

definition storage_lines :: "instance_record \<Rightarrow> event list" where
  "storage_lines i =
    Print (CHR 0x0A # ''Storage:'') # concat (map (bdm_lines i) (get_bdms i))"

definition placement_lines :: "instance_record \<Rightarrow> event list" where
  "placement_lines i =
    Print (CHR 0x0A # ''Availability Zone: '' @ Placement_AvailabilityZone i) #
    (if truthy (KeyName i) then [Print (''Key Pair: '' @ the (KeyName i))] else [])"

text \<open>The body of the loop of line 122 for instance number \<open>k\<close> of \<open>n\<close>.\<close>

definition instance_lines :: "nat \<Rightarrow> nat \<Rightarrow> instance_record \<Rightarrow> event list" where
  "instance_lines n k i =
    header_lines n k @ basic_lines i @ network_lines i @ security_group_lines i @
    tag_lines i @ storage_lines i @ placement_lines i"

fun format_loop :: "nat \<Rightarrow> nat \<Rightarrow> instance_record list \<Rightarrow> event list" where
  "format_loop n k [] = []"
| "format_loop n k (i # is) = instance_lines n k i @ format_loop n (Suc k) is"

definition format_ec2_details :: "instance_record list \<Rightarrow> event list" where
  "format_ec2_details insts = format_loop (length insts) 1 insts"

section \<open>\<^verbatim>\<open>main\<close>\<close>

text \<open>The parsed command line.\<close>

record args =
  args_server_name :: string
  args_region :: "string option"
  args_output :: "string option"
  args_human :: bool

text \<open>
  \<^verbatim>\<open>json.dumps(d, default=str)\<close> of a datetime: the text of the datetime as a JSON
  string, between double quotes, with the escapes of the encoder. A character is
  taken as the code point of its number.
\<close>

definition hex_char :: "nat \<Rightarrow> char" where
  "hex_char d = ''0123456789abcdef'' ! d"

definition json_escape :: "char \<Rightarrow> string" where
  "json_escape c =
    (if c = CHR 0x5C then [CHR 0x5C, CHR 0x5C]
     else if c = CHR 0x22 then [CHR 0x5C, CHR 0x22]
     else if c = CHR 0x08 then [CHR 0x5C, CHR ''b'']
     else if c = CHR 0x0C then [CHR 0x5C, CHR ''f'']
     else if c = CHR 0x0A then [CHR 0x5C, CHR ''n'']
     else if c = CHR 0x0D then [CHR 0x5C, CHR ''r'']
     else if c = CHR 0x09 then [CHR 0x5C, CHR ''t'']
     else if (of_char c :: nat) < 32 \<or> (of_char c :: nat) > 126 then
       [CHR 0x5C, CHR ''u'', CHR ''0'', CHR ''0'',
        hex_char ((of_char c :: nat) div 16), hex_char ((of_char c :: nat) mod 16)]
     else [c])"

definition json_dumps_default_str :: "datetime \<Rightarrow> string" where
  "json_dumps_default_str d = CHR 0x22 # concat (map json_escape (str_datetime d)) @ [CHR 0x22]"

text \<open>\<^verbatim>\<open>s.replace(a, b)\<close> for single characters.\<close>

definition replace_char :: "char \<Rightarrow> char \<Rightarrow> string \<Rightarrow> string" where
  "replace_char a b s = map (\<lambda>c. if c = a then b else c) s"

text \<open>Lines 224 to 227: the path of the file.\<close>

definition output_path :: "args \<Rightarrow> string" where
  "output_path a =
    (if \<not> truthy (args_output a) then
       ''output/'' @
       replace_char (CHR 0x5C) CHR ''_'' (replace_char CHR ''/'' CHR ''_'' (args_server_name a)) @
       ''_details.json''
     else the (args_output a))"

text \<open>Lines 234 to 240: the object written.\<close>

definition build_output_data :: "args \<Rightarrow> instance_record list \<Rightarrow> output_data" where
  "build_output_data a insts =
    \<lparr> search_query = args_server_name a,
      region = region_or_default (args_region a),
      timestamp =
        (case insts of [] \<Rightarrow> None | i # _ \<Rightarrow> Some (json_dumps_default_str (LaunchTime i))),
      instance_count = length insts,
      instances = insts \<rparr>"

text \<open>Lines 250 and 251: the summary, one line for each instance.\<close>

fun summary_loop :: "nat \<Rightarrow> instance_record list \<Rightarrow> event list" where
  "summary_loop k [] = []"
| "summary_loop k (i # is) =
     Print (''  Instance '' @ str_nat k @ '': '' @ InstanceId i @ '' ('' @ State_Name i @ '')'') #
     summary_loop (Suc k) is"

text \<open>Lines 211 to 215.\<close>

definition search_lines :: "args \<Rightarrow> event list" where
  "search_lines a =
    [Print (''Searching for EC2 instance: '' @ args_server_name a),
     (if truthy (args_region a) then Print (''Region: '' @ the (args_region a))
      else Print ''Region: ap-southeast-2 (default)'')]"

text \<open>Lines 223 to 251: what \<^verbatim>\<open>main\<close> does with a list of instances that is not empty.\<close>

definition report :: "env \<Rightarrow> args \<Rightarrow> instance_record list \<Rightarrow> event list \<times> (exn + unit)" where
  "report w a insts =
    (if args_human a then (format_ec2_details insts, Inr ())
     else
       (case open_w w (output_path a) of
          Some e \<Rightarrow> ([], Inl e)
        | None \<Rightarrow>
            ([Json_dump (output_path a) (build_output_data a insts),
              Print (''EC2 details written to: '' @ output_path a),
              Print (''Found '' @ str_nat (length insts) @ '' instance(s)'')] @
             summary_loop 1 insts, Inr ())))"

text \<open>
  The whole run: the events, then the exception that ends it or the normal end.
\<close>

definition main :: "env \<Rightarrow> args \<Rightarrow> event list \<times> (exn + unit)" where
  "main w a =
    (case get_ec2_details w (args_server_name a) (args_region a) of
       (ev, Inl e) \<Rightarrow> (search_lines a @ ev, Inl e)
     | (ev, Inr None) \<Rightarrow> (search_lines a @ ev, Inr ())
     | (ev, Inr (Some [])) \<Rightarrow> (search_lines a @ ev, Inr ())
     | (ev, Inr (Some (i # is))) \<Rightarrow>
         (case report w a (i # is) of
            (ev', r) \<Rightarrow> (search_lines a @ ev @ ev', r)))"

section \<open>Reading a run\<close>

text \<open>The arguments of the volume queries of a run, and of its instance queries, in order.\<close>

fun volume_calls :: "event list \<Rightarrow> string list list" where
  "volume_calls [] = []"
| "volume_calls (Call_describe_volumes ids # es) = ids # volume_calls es"
| "volume_calls (_ # es) = volume_calls es"

fun instance_calls :: "event list \<Rightarrow> filter_spec list list" where
  "instance_calls [] = []"
| "instance_calls (Call_describe_instances fs # es) = fs # instance_calls es"
| "instance_calls (_ # es) = instance_calls es"

text \<open>
  What the provider's service does with the two filters of the query, as its
  documentation has it: an instance passes \<^verbatim>\<open>tag:Name\<close> when one of its tags has
  the key \<^verbatim>\<open>Name\<close> and one of the values, and \<^verbatim>\<open>instance-state-name\<close> when the
  name of its state is one of the values. The script does not check this itself.
\<close>

definition passes_filter :: "filter_spec \<Rightarrow> instance_record \<Rightarrow> bool" where
  "passes_filter f i =
    (if Name f = ''tag:Name'' then
       list_ex (\<lambda>t. Key t = ''Name'' \<and> Value t \<in> set (Values f))
         (case Tags i of None \<Rightarrow> [] | Some ts \<Rightarrow> ts)
     else if Name f = ''instance-state-name'' then State_Name i \<in> set (Values f)
     else True)"

section \<open>Concrete inputs\<close>

definition example_instance ::
  "string \<Rightarrow> string option \<Rightarrow> tag list option \<Rightarrow> bdm list option \<Rightarrow> instance_record" where
  "example_instance iid platform tags bdms =
    \<lparr> InstanceId = iid, InstanceType = ''t3.micro'', State_Name = ''running'',
      LaunchTime = Datetime ''2024-01-01 00:00:00+00:00'', Architecture = ''x86_64'',
      Platform = platform, VpcId = ''vpc-1'', SubnetId = ''subnet-1'',
      PrivateIpAddress = ''10.0.0.1'', PublicIpAddress = None,
      PrivateDnsName = ''ip-10-0-0-1.internal'', PublicDnsName = None,
      SecurityGroups = [\<lparr> GroupName = ''default'', GroupId = ''sg-1'' \<rparr>],
      Tags = tags, BlockDeviceMappings = bdms,
      Placement_AvailabilityZone = ''ap-southeast-2a'', KeyName = None,
      VolumeDetails = None \<rparr>"

definition name_tag :: "tag list option" where
  "name_tag = Some [\<lparr> Key = ''Name'', Value = ''web-01'' \<rparr>]"

definition ebs_bdm :: "string \<Rightarrow> string \<Rightarrow> bdm" where
  "ebs_bdm device volume_id = \<lparr> DeviceName = device, Ebs = Some \<lparr> VolumeId = volume_id \<rparr> \<rparr>"

definition ephemeral_bdm :: "string \<Rightarrow> bdm" where
  "ephemeral_bdm device = \<lparr> DeviceName = device, Ebs = None \<rparr>"

definition example_volume :: "string \<Rightarrow> volume" where
  "example_volume volume_id =
    \<lparr> vol_VolumeId = volume_id, vol_Size = 8, vol_VolumeType = ''io2'', vol_State = ''in-use'',
      vol_Encrypted = True, vol_Iops = Some 3000, vol_Throughput = None,
      vol_SnapshotId = None, vol_AvailabilityZone = ''ap-southeast-2a'',
      vol_CreateTime = Datetime ''2023-12-31 23:00:00+00:00'' \<rparr>"

text \<open>A client that answers every query the same way, in an outside where nothing else fails.\<close>

definition example_client :: "exn + reservation list \<Rightarrow> exn + volume list \<Rightarrow> ec2_client" where
  "example_client di dv = \<lparr> describe_instances = (\<lambda>_. di), describe_volumes = (\<lambda>_. dv) \<rparr>"

definition example_env :: "exn + reservation list \<Rightarrow> exn + volume list \<Rightarrow> env" where
  "example_env di dv =
    \<lparr> boto3_client = (\<lambda>_. Inr (example_client di dv)), open_w = (\<lambda>_. None) \<rparr>"

definition example_args :: args where
  "example_args =
    \<lparr> args_server_name = ''web-01'', args_region = None, args_output = None,
      args_human = False \<rparr>"

text \<open>Two instances in two reservations that share the volume \<^verbatim>\<open>vol-A\<close>.\<close>

definition shared_reservations :: "reservation list" where
  "shared_reservations =
    [\<lparr> Instances = [example_instance ''i-1'' None name_tag
                      (Some [ebs_bdm ''/dev/xvda'' ''vol-A'', ephemeral_bdm ''/dev/sdb''])] \<rparr>,
     \<lparr> Instances = [example_instance ''i-2'' None name_tag
                      (Some [ebs_bdm ''/dev/xvda'' ''vol-A''])] \<rparr>]"

section \<open>The loops in closed form\<close>

lemma append_instances_eq: "append_instances acc xs = acc @ xs"
  by (induction xs arbitrary: acc) simp_all

lemma flatten_reservations_eq:
  "flatten_reservations acc rs = acc @ concat (map Instances rs)"
  by (induction rs arbitrary: acc) (simp_all add: append_instances_eq)

lemma bdm_volume_ids_acc: "bdm_volume_ids acc bs = acc @ bdm_volume_ids [] bs"
proof (induction bs arbitrary: acc)
  case Nil
  show ?case by simp
next
  case (Cons b bs)
  show ?case
  proof (cases "Ebs b")
    case None
    then show ?thesis using Cons.IH [of acc] by simp
  next
    case (Some e)
    have "bdm_volume_ids (acc @ [VolumeId e]) bs = (acc @ [VolumeId e]) @ bdm_volume_ids [] bs"
      by (rule Cons.IH)
    moreover have "bdm_volume_ids [VolumeId e] bs = [VolumeId e] @ bdm_volume_ids [] bs"
      by (rule Cons.IH)
    ultimately show ?thesis using Some by simp
  qed
qed

lemma bdm_volume_ids_Cons:
  "bdm_volume_ids [] (b # bs) =
    (case Ebs b of Some e \<Rightarrow> [VolumeId e] | None \<Rightarrow> []) @ bdm_volume_ids [] bs"
proof (cases "Ebs b")
  case None
  then show ?thesis by simp
next
  case (Some e)
  then show ?thesis using bdm_volume_ids_acc [of "[VolumeId e]" bs] by simp
qed

lemma bdm_volume_ids_set:
  "v \<in> set (bdm_volume_ids [] bs) \<longleftrightarrow> (\<exists>b \<in> set bs. \<exists>e. Ebs b = Some e \<and> VolumeId e = v)"
proof (induction bs)
  case Nil
  show ?case by simp
next
  case (Cons b bs)
  show ?case
  proof (cases "Ebs b")
    case None
    then show ?thesis using Cons.IH by (simp add: bdm_volume_ids_Cons del: bdm_volume_ids.simps(2))
  next
    case (Some e)
    then show ?thesis using Cons.IH
      by (auto simp add: bdm_volume_ids_Cons simp del: bdm_volume_ids.simps(2))
  qed
qed

lemma collect_volume_ids_eq:
  "collect_volume_ids acc is = acc @ concat (map (\<lambda>i. bdm_volume_ids [] (get_bdms i)) is)"
proof (induction "is" arbitrary: acc)
  case Nil
  show ?case by simp
next
  case (Cons i "is")
  show ?case
    using Cons.IH [of "bdm_volume_ids acc (get_bdms i)"] bdm_volume_ids_acc [of acc "get_bdms i"]
    by simp
qed

lemma map_of_dict_set: "map_of (dict_set d k v) = (map_of d)(k \<mapsto> v)"
  by (induction d k v rule: dict_set.induct) auto

lemma bdm_details_lookup:
  "map_of (bdm_details vd d bs) k =
    (if k \<in> set (bdm_volume_ids [] bs) \<and> map_of vd k \<noteq> None then map_of vd k else map_of d k)"
proof (induction bs arbitrary: d)
  case Nil
  show ?case by simp
next
  case (Cons b bs)
  show ?case
  proof (cases "Ebs b")
    case None
    then show ?thesis using Cons.IH [of d] by (simp add: bdm_volume_ids_Cons del: bdm_volume_ids.simps(2))
  next
    case (Some e)
    show ?thesis
    proof (cases "map_of vd (VolumeId e)")
      case None
      then show ?thesis using Some Cons.IH [of d]
        by (auto simp add: bdm_volume_ids_Cons simp del: bdm_volume_ids.simps(2))
    next
      case (Some r)
      then show ?thesis using \<open>Ebs b = Some e\<close> Cons.IH [of "dict_set d (VolumeId e) r"]
        by (auto simp add: bdm_volume_ids_Cons map_of_dict_set simp del: bdm_volume_ids.simps(2))
    qed
  qed
qed


section \<open>The three ways \<^verbatim>\<open>get_ec2_details\<close> ends after the query\<close>

lemma get_ec2_details_found:
  assumes "boto3_client w (region_or_default r) = Inr ec2"
    and "describe_instances ec2 (query_filters n) = Inr rs"
    and "concat (map Instances rs) \<noteq> []"
  shows "get_ec2_details w n r =
    (Call_describe_instances (query_filters n) #
     (if length (concat (map Instances rs)) > 1 then
        [Print (''Found '' @ str_nat (length (concat (map Instances rs))) @
                '' instances with name: '' @ n),
         Print ''Showing details for all instances:'']
      else []) @
     fst (get_volume_details ec2
            (concat (map (\<lambda>i. bdm_volume_ids [] (get_bdms i)) (concat (map Instances rs))))),
     Inr (Some (map (add_volume_details
                  (snd (get_volume_details ec2
                     (concat (map (\<lambda>i. bdm_volume_ids [] (get_bdms i))
                        (concat (map Instances rs)))))))
                (concat (map Instances rs)))))"
  using assms
  by (simp add: get_ec2_details_def flatten_reservations_eq collect_volume_ids_eq Let_def
      split: prod.split)

lemma get_ec2_details_not_found:
  assumes "boto3_client w (region_or_default r) = Inr ec2"
    and "describe_instances ec2 (query_filters n) = Inr rs"
    and "concat (map Instances rs) = []"
  shows "get_ec2_details w n r =
    ([Call_describe_instances (query_filters n),
      Print (''No EC2 instances found with name: '' @ n)], Inr None)"
  using assms
  by (simp add: get_ec2_details_def flatten_reservations_eq)

lemma get_ec2_details_error:
  assumes "boto3_client w (region_or_default r) = Inr ec2"
    and "describe_instances ec2 (query_filters n) = Inl e"
  shows "get_ec2_details w n r =
    ([Call_describe_instances (query_filters n),
      Print (''Error retrieving EC2 details: '' @ str_exn e)], Inr None)"
  using assms
  by (simp add: get_ec2_details_def)

lemma get_volume_details_failed:
  "describe_volumes ec2 ids = Inl e \<Longrightarrow> snd (get_volume_details ec2 ids) = []"
  by (simp add: get_volume_details_def)

lemma bdm_details_empty: "bdm_details [] d bs = d"
  by (induction bs arbitrary: d) (simp_all split: option.split)

section \<open>Runs that stop after the query, and a failed volume query\<close>

text \<open>
  C4. When the query matches no instance, \<^verbatim>\<open>get_ec2_details\<close> prints the
  not-found line and returns \<^verbatim>\<open>None\<close> without raising, and the whole run is the
  two lines of the search, the query and that line: no volume query, no merge, no
  report and no file, and the run ends normally.
\<close>

theorem no_match_short_circuits:
  assumes "boto3_client w (region_or_default (args_region a)) = Inr ec2"
    and "describe_instances ec2 (query_filters (args_server_name a)) = Inr rs"
    and "concat (map Instances rs) = []"
  shows "get_ec2_details w (args_server_name a) (args_region a) =
      ([Call_describe_instances (query_filters (args_server_name a)),
        Print (''No EC2 instances found with name: '' @ args_server_name a)], Inr None)
    \<and> main w a =
      (search_lines a @
       [Call_describe_instances (query_filters (args_server_name a)),
        Print (''No EC2 instances found with name: '' @ args_server_name a)], Inr ())"
  using get_ec2_details_not_found [OF assms]
  by (simp add: main_def)


theorem no_match_short_circuits_witness:
  "main (example_env (Inr [\<lparr> Instances = [] \<rparr>]) (Inr [])) example_args =
    ([Print ''Searching for EC2 instance: web-01'',
      Print ''Region: ap-southeast-2 (default)'',
      Call_describe_instances
        [\<lparr> Name = ''tag:Name'', Values = [''web-01''] \<rparr>,
         \<lparr> Name = ''instance-state-name'',
           Values = [''running'', ''stopped'', ''stopping'', ''pending'', ''shutting-down''] \<rparr>],
      Print ''No EC2 instances found with name: web-01''], Inr ())"
  using no_match_short_circuits
    [of "example_env (Inr [\<lparr> Instances = [] \<rparr>]) (Inr [])" example_args
        "example_client (Inr [\<lparr> Instances = [] \<rparr>]) (Inr [])" "[\<lparr> Instances = [] \<rparr>]"]
  by (simp add: example_env_def example_client_def example_args_def search_lines_def
      query_filters_def)

text \<open>
  When the client cannot be made, the exception leaves \<^verbatim>\<open>get_ec2_details\<close> and
  \<^verbatim>\<open>main\<close> uncaught, after the two lines of the search.
\<close>

lemma main_client_error:
  assumes "boto3_client w (region_or_default (args_region a)) = Inl e"
  shows "main w a = (search_lines a, Inl e)"
  using assms by (simp add: main_def get_ec2_details_def)

text \<open>
  C5, as the script has it. The claim says that the error propagates to the top. The
  \<^verbatim>\<open>except\<close> clause of lines 114 to 116 ends it inside \<^verbatim>\<open>get_ec2_details\<close>,
  which returns \<^verbatim>\<open>None\<close>, and \<^verbatim>\<open>main\<close> returns at line 221: with a query
  that raises, the run ends normally and no exception leaves \<^verbatim>\<open>main\<close>, the same
  end as when no instance is found.
\<close>

theorem lookup_error_ends_normally:
  "snd (get_ec2_details (example_env (Inl (Exception ''AuthFailure'')) (Inr [])) ''web-01'' None) =
     Inr None
   \<and> snd (main (example_env (Inl (Exception ''AuthFailure'')) (Inr [])) example_args) = Inr ()
   \<and> snd (main (example_env (Inl (Exception ''AuthFailure'')) (Inr [])) example_args) =
     snd (main (example_env (Inr []) (Inr [])) example_args)"
  by (simp add: main_def get_ec2_details_def example_env_def example_client_def example_args_def)

text \<open>
  C5, amended. When the query itself raises, \<^verbatim>\<open>get_ec2_details\<close> catches the
  exception, prints the line that reports it and returns \<^verbatim>\<open>None\<close>, so no instance
  list at all; \<^verbatim>\<open>main\<close> then returns at once and the run ends normally. The run is
  the two lines of the search, the query and the line that reports the error, with no
  volume query, no report and no file.
\<close>

theorem lookup_error_is_terminal:
  assumes "boto3_client w (region_or_default (args_region a)) = Inr ec2"
    and "describe_instances ec2 (query_filters (args_server_name a)) = Inl e"
  shows "get_ec2_details w (args_server_name a) (args_region a) =
      ([Call_describe_instances (query_filters (args_server_name a)),
        Print (''Error retrieving EC2 details: '' @ str_exn e)], Inr None)
    \<and> main w a =
      (search_lines a @
       [Call_describe_instances (query_filters (args_server_name a)),
        Print (''Error retrieving EC2 details: '' @ str_exn e)], Inr ())"
  using get_ec2_details_error [OF assms]
  by (simp add: main_def)


theorem lookup_error_is_terminal_witness:
  "main (example_env (Inl (Exception ''AuthFailure'')) (Inr [])) example_args =
    ([Print ''Searching for EC2 instance: web-01'',
      Print ''Region: ap-southeast-2 (default)'',
      Call_describe_instances
        [\<lparr> Name = ''tag:Name'', Values = [''web-01''] \<rparr>,
         \<lparr> Name = ''instance-state-name'',
           Values = [''running'', ''stopped'', ''stopping'', ''pending'', ''shutting-down''] \<rparr>],
      Print ''Error retrieving EC2 details: AuthFailure''], Inr ())"
  using lookup_error_is_terminal
    [of "example_env (Inl (Exception ''AuthFailure'')) (Inr [])" example_args
        "example_client (Inl (Exception ''AuthFailure'')) (Inr [])" "Exception ''AuthFailure''"]
  by (simp add: example_env_def example_client_def example_args_def search_lines_def
      query_filters_def)

text \<open>
  C3. When the volume query raises, \<^verbatim>\<open>get_volume_details\<close> returns the empty
  dictionary, and \<^verbatim>\<open>get_ec2_details\<close> still returns every matched instance, in
  order, each with an empty \<^verbatim>\<open>VolumeDetails\<close>; no exception leaves it.
\<close>

theorem volume_fetch_failure_tolerated:
  assumes "boto3_client w (region_or_default r) = Inr ec2"
    and "describe_instances ec2 (query_filters n) = Inr rs"
    and "concat (map Instances rs) \<noteq> []"
    and "describe_volumes ec2
           (concat (map (\<lambda>i. bdm_volume_ids [] (get_bdms i)) (concat (map Instances rs)))) = Inl e"
  shows "snd (get_volume_details ec2
           (concat (map (\<lambda>i. bdm_volume_ids [] (get_bdms i)) (concat (map Instances rs))))) = []
    \<and> snd (get_ec2_details w n r) =
        Inr (Some (map (\<lambda>i. i\<lparr> VolumeDetails := Some [] \<rparr>) (concat (map Instances rs))))"
  using get_ec2_details_found [OF assms(1-3)] get_volume_details_failed [OF assms(4)]
  by (simp add: add_volume_details_def bdm_details_empty)


theorem volume_fetch_failure_tolerated_witness:
  "snd (get_ec2_details (example_env (Inr shared_reservations) (Inl (Exception ''timeout'')))
          ''web-01'' None) =
    Inr (Some
      [example_instance ''i-1'' None name_tag
         (Some [ebs_bdm ''/dev/xvda'' ''vol-A'', ephemeral_bdm ''/dev/sdb''])
         \<lparr> VolumeDetails := Some [] \<rparr>,
       example_instance ''i-2'' None name_tag (Some [ebs_bdm ''/dev/xvda'' ''vol-A''])
         \<lparr> VolumeDetails := Some [] \<rparr>])"
  using volume_fetch_failure_tolerated
    [of "example_env (Inr shared_reservations) (Inl (Exception ''timeout''))" None
        "example_client (Inr shared_reservations) (Inl (Exception ''timeout''))"
        "''web-01''" shared_reservations "Exception ''timeout''"]
  by (simp add: example_env_def example_client_def shared_reservations_def)

section \<open>The volume query and the merge\<close>

lemma volume_calls_append: "volume_calls (xs @ ys) = volume_calls xs @ volume_calls ys"
  by (induction xs rule: volume_calls.induct) simp_all

lemma instance_calls_append: "instance_calls (xs @ ys) = instance_calls xs @ instance_calls ys"
  by (induction xs rule: instance_calls.induct) simp_all

lemma get_volume_details_calls:
  "volume_calls (fst (get_volume_details ec2 ids)) = (if ids = [] then [] else [ids])"
  "instance_calls (fst (get_volume_details ec2 ids)) = []"
  by (simp_all add: get_volume_details_def split: sum.split)

lemma add_volume_details_info:
  "get_volume_info (add_volume_details vd i) v =
    (if v \<in> set (bdm_volume_ids [] (get_bdms i)) then dict_get vd v else None)"
  by (cases "dict_get vd v") (simp_all add: get_volume_info_def add_volume_details_def bdm_details_lookup)

lemma add_volume_details_bdms: "get_bdms (add_volume_details vd i) = get_bdms i"
  by (simp add: add_volume_details_def get_bdms_def)

text \<open>
  C6. In the list \<^verbatim>\<open>get_ec2_details\<close> returns, every instance is the matched
  instance with only \<^verbatim>\<open>VolumeDetails\<close> set, so its attachments are as they came.
  For an attachment with \<^verbatim>\<open>Ebs\<close>, the entry of \<^verbatim>\<open>VolumeDetails\<close> under its
  volume identifier is the entry of the fetched dictionary when there is one, and is
  absent when there is none. Every entry of \<^verbatim>\<open>VolumeDetails\<close> is an entry of the
  fetched dictionary under the identifier of an attachment with \<^verbatim>\<open>Ebs\<close>: an
  attachment without \<^verbatim>\<open>Ebs\<close> gives no entry.
\<close>

theorem merged_volume_details:
  assumes "boto3_client w (region_or_default r) = Inr ec2"
    and "describe_instances ec2 (query_filters n) = Inr rs"
    and "concat (map Instances rs) \<noteq> []"
    and "volume_details = snd (get_volume_details ec2
           (concat (map (\<lambda>i. bdm_volume_ids [] (get_bdms i)) (concat (map Instances rs)))))"
  shows "\<exists>out. snd (get_ec2_details w n r) = Inr (Some out)
    \<and> length out = length (concat (map Instances rs))
    \<and> (\<forall>k < length out.
         (\<exists>d. out ! k = (concat (map Instances rs) ! k)\<lparr> VolumeDetails := Some d \<rparr>)
       \<and> (\<forall>b \<in> set (get_bdms (out ! k)). \<forall>e. Ebs b = Some e \<longrightarrow>
             get_volume_info (out ! k) (VolumeId e) = dict_get volume_details (VolumeId e))
       \<and> (\<forall>v rec. get_volume_info (out ! k) v = Some rec \<longrightarrow>
             dict_get volume_details v = Some rec
           \<and> (\<exists>b \<in> set (get_bdms (out ! k)). \<exists>e. Ebs b = Some e \<and> VolumeId e = v)))"
proof -
  let ?flat = "concat (map Instances rs)"
  define out where "out = map (add_volume_details volume_details) ?flat"
  have res: "snd (get_ec2_details w n r) = Inr (Some out)"
    using get_ec2_details_found [OF assms(1-3)] assms(4) by (simp add: out_def)
  have len: "length out = length ?flat"
    by (simp add: out_def)
  have nth: "out ! k = add_volume_details volume_details (?flat ! k)" if "k < length out" for k
    using that by (simp add: out_def)
  have each: "\<forall>k < length out.
         (\<exists>d. out ! k = (?flat ! k)\<lparr> VolumeDetails := Some d \<rparr>)
       \<and> (\<forall>b \<in> set (get_bdms (out ! k)). \<forall>e. Ebs b = Some e \<longrightarrow>
             get_volume_info (out ! k) (VolumeId e) = dict_get volume_details (VolumeId e))
       \<and> (\<forall>v rec. get_volume_info (out ! k) v = Some rec \<longrightarrow>
             dict_get volume_details v = Some rec
           \<and> (\<exists>b \<in> set (get_bdms (out ! k)). \<exists>e. Ebs b = Some e \<and> VolumeId e = v))"
  proof (intro allI impI conjI)
    fix k assume "k < length out"
    note k = nth [OF this]
    show "\<exists>d. out ! k = (?flat ! k)\<lparr> VolumeDetails := Some d \<rparr>"
      unfolding k add_volume_details_def by (rule exI) (rule refl)
    show "\<forall>b \<in> set (get_bdms (out ! k)). \<forall>e. Ebs b = Some e \<longrightarrow>
             get_volume_info (out ! k) (VolumeId e) = dict_get volume_details (VolumeId e)"
      unfolding k
      by (auto simp: add_volume_details_info add_volume_details_bdms bdm_volume_ids_set)
  next
    fix k v rec
    assume "k < length out" and info: "get_volume_info (out ! k) v = Some rec"
    note k = nth [OF \<open>k < length out\<close>]
    from info show "dict_get volume_details v = Some rec"
      unfolding k by (simp add: add_volume_details_info split: if_splits)
    from info show "\<exists>b \<in> set (get_bdms (out ! k)). \<exists>e. Ebs b = Some e \<and> VolumeId e = v"
      unfolding k
      by (simp add: add_volume_details_info add_volume_details_bdms bdm_volume_ids_set
          split: if_splits)
  qed
  show ?thesis
    by (rule exI [of _ out], intro conjI) (fact res, fact len, fact each)
qed

theorem merged_volume_details_witness:
  "\<exists>out. snd (get_ec2_details
                (example_env (Inr shared_reservations) (Inr [example_volume ''vol-A'']))
                ''web-01'' None) = Inr (Some out)
     \<and> length out = 2
     \<and> get_volume_info (out ! 0) ''vol-A'' = Some (volume_entry (example_volume ''vol-A''))
     \<and> get_volume_info (out ! 1) ''vol-A'' = Some (volume_entry (example_volume ''vol-A''))
     \<and> get_volume_info (out ! 0) ''/dev/sdb'' = None"
proof -
  let ?w = "example_env (Inr shared_reservations) (Inr [example_volume ''vol-A''])"
  let ?c = "example_client (Inr shared_reservations) (Inr [example_volume ''vol-A''])"
  let ?flat = "concat (map Instances shared_reservations)"
  let ?vd = "snd (get_volume_details ?c
                (concat (map (\<lambda>i. bdm_volume_ids [] (get_bdms i)) ?flat)))"
  have h1: "boto3_client ?w (region_or_default None) = Inr ?c"
    by (simp add: example_env_def)
  have h2: "describe_instances ?c (query_filters ''web-01'') = Inr shared_reservations"
    by (simp add: example_client_def)
  have h3: "?flat \<noteq> []"
    by (simp add: shared_reservations_def)
  have vd: "?vd = [(''vol-A'', volume_entry (example_volume ''vol-A''))]"
    by (simp add: shared_reservations_def example_instance_def get_bdms_def ebs_bdm_def
        ephemeral_bdm_def get_volume_details_def example_client_def example_volume_def)
  from merged_volume_details [OF h1 h2 h3 refl]
  obtain out where out: "snd (get_ec2_details ?w ''web-01'' None) = Inr (Some out)"
    and len: "length out = length ?flat"
    and each: "\<forall>k < length out.
         (\<exists>d. out ! k = (?flat ! k)\<lparr> VolumeDetails := Some d \<rparr>)
       \<and> (\<forall>b \<in> set (get_bdms (out ! k)). \<forall>e. Ebs b = Some e \<longrightarrow>
             get_volume_info (out ! k) (VolumeId e) = dict_get ?vd (VolumeId e))
       \<and> (\<forall>v rec. get_volume_info (out ! k) v = Some rec \<longrightarrow>
             dict_get ?vd v = Some rec
           \<and> (\<exists>b \<in> set (get_bdms (out ! k)). \<exists>e. Ebs b = Some e \<and> VolumeId e = v))"
    by blast
  have len2: "length out = 2"
    using len by (simp add: shared_reservations_def)
  have l0: "0 < length out" and l1: "1 < length out"
    using len2 by simp_all
  note at0 = each [rule_format, OF l0]
  note at1 = each [rule_format, OF l1]
  have b0: "ebs_bdm ''/dev/xvda'' ''vol-A'' \<in> set (get_bdms (out ! 0))"
  proof -
    from conjunct1 [OF at0] obtain d where "out ! 0 = (?flat ! 0)\<lparr> VolumeDetails := Some d \<rparr>" ..
    then show ?thesis
      by (simp add: shared_reservations_def example_instance_def get_bdms_def)
  qed
  have b1: "ebs_bdm ''/dev/xvda'' ''vol-A'' \<in> set (get_bdms (out ! 1))"
  proof -
    from conjunct1 [OF at1] obtain d where "out ! 1 = (?flat ! 1)\<lparr> VolumeDetails := Some d \<rparr>" ..
    then show ?thesis
      by (simp add: shared_reservations_def example_instance_def get_bdms_def)
  qed
  have e: "Ebs (ebs_bdm ''/dev/xvda'' ''vol-A'') = Some \<lparr> VolumeId = ''vol-A'' \<rparr>"
    by (simp add: ebs_bdm_def)
  have i0: "get_volume_info (out ! 0) ''vol-A'' = dict_get ?vd ''vol-A''"
    using conjunct1 [OF conjunct2 [OF at0], rule_format, OF b0 e] by simp
  have i1: "get_volume_info (out ! 1) ''vol-A'' = dict_get ?vd ''vol-A''"
    using conjunct1 [OF conjunct2 [OF at1], rule_format, OF b1 e] by simp
  have n0: "get_volume_info (out ! 0) ''/dev/sdb'' = None"
  proof (cases "get_volume_info (out ! 0) ''/dev/sdb''")
    case None
    then show ?thesis .
  next
    case (Some rec)
    from conjunct2 [OF conjunct2 [OF at0], rule_format, OF Some]
    have "dict_get ?vd ''/dev/sdb'' = Some rec" ..
    then show ?thesis by (simp only: vd) simp
  qed
  have v: "dict_get ?vd ''vol-A'' = Some (volume_entry (example_volume ''vol-A''))"
    by (simp only: vd) simp
  from out len2 i0 i1 n0 show ?thesis
    unfolding v by blast
qed

text \<open>
  C7. The two nested loops give the instances of all reservations in one list, in the
  order of the response, whatever the grouping. The list returned holds the same
  instances in the same order, with only \<^verbatim>\<open>VolumeDetails\<close> set, and the object
  written holds that list as it is.
\<close>

theorem instance_order_preserved:
  assumes "boto3_client w (region_or_default r) = Inr ec2"
    and "describe_instances ec2 (query_filters n) = Inr rs"
    and "concat (map Instances rs) \<noteq> []"
  shows "flatten_reservations [] rs = concat (map Instances rs)
    \<and> (\<exists>out. snd (get_ec2_details w n r) = Inr (Some out)
        \<and> map (\<lambda>i. i\<lparr> VolumeDetails := None \<rparr>) out =
          map (\<lambda>i. i\<lparr> VolumeDetails := None \<rparr>) (concat (map Instances rs))
        \<and> instances (build_output_data a out) = out)"
proof -
  let ?flat = "concat (map Instances rs)"
  define vd where "vd = snd (get_volume_details ec2
    (concat (map (\<lambda>i. bdm_volume_ids [] (get_bdms i)) ?flat)))"
  have res: "snd (get_ec2_details w n r) = Inr (Some (map (add_volume_details vd) ?flat))"
    using get_ec2_details_found [OF assms] by (simp add: vd_def)
  have same: "map (\<lambda>i. i\<lparr> VolumeDetails := None \<rparr>) (map (add_volume_details vd) ?flat) =
      map (\<lambda>i. i\<lparr> VolumeDetails := None \<rparr>) ?flat"
    by (simp add: add_volume_details_def)
  have asm: "instances (build_output_data a (map (add_volume_details vd) ?flat)) =
      map (add_volume_details vd) ?flat"
    by (simp add: build_output_data_def)
  have "flatten_reservations [] rs = ?flat"
    by (simp add: flatten_reservations_eq)
  with res same asm show ?thesis by blast
qed

theorem instance_order_preserved_witness:
  "\<exists>out. snd (get_ec2_details
                (example_env (Inr shared_reservations) (Inr [example_volume ''vol-A'']))
                ''web-01'' None) = Inr (Some out)
     \<and> map InstanceId out = [''i-1'', ''i-2'']
     \<and> map InstanceId (instances (build_output_data example_args out)) = [''i-1'', ''i-2'']"
proof -
  let ?w = "example_env (Inr shared_reservations) (Inr [example_volume ''vol-A''])"
  let ?c = "example_client (Inr shared_reservations) (Inr [example_volume ''vol-A''])"
  have h1: "boto3_client ?w (region_or_default None) = Inr ?c"
    by (simp add: example_env_def)
  have h2: "describe_instances ?c (query_filters ''web-01'') = Inr shared_reservations"
    by (simp add: example_client_def)
  have h3: "concat (map Instances shared_reservations) \<noteq> []"
    by (simp add: shared_reservations_def)
  from instance_order_preserved [OF h1 h2 h3, of example_args]
  obtain out where out: "snd (get_ec2_details ?w ''web-01'' None) = Inr (Some out)"
    and same: "map (\<lambda>i. i\<lparr> VolumeDetails := None \<rparr>) out =
               map (\<lambda>i. i\<lparr> VolumeDetails := None \<rparr>) (concat (map Instances shared_reservations))"
    and asm: "instances (build_output_data example_args out) = out"
    by blast
  have "map InstanceId out = map InstanceId (map (\<lambda>i. i\<lparr> VolumeDetails := None \<rparr>) out)"
    by simp
  also have "\<dots> = [''i-1'', ''i-2'']"
    unfolding same by (simp add: shared_reservations_def example_instance_def)
  finally have "map InstanceId out = [''i-1'', ''i-2'']" .
  with out asm show ?thesis by simp
qed

lemma volume_calls_found:
  assumes "boto3_client w (region_or_default r) = Inr ec2"
    and "describe_instances ec2 (query_filters n) = Inr rs"
    and "concat (map Instances rs) \<noteq> []"
  shows "volume_calls (fst (get_ec2_details w n r)) =
    (if concat (map (\<lambda>i. bdm_volume_ids [] (get_bdms i)) (concat (map Instances rs))) = []
     then []
     else [concat (map (\<lambda>i. bdm_volume_ids [] (get_bdms i)) (concat (map Instances rs)))])"
  unfolding get_ec2_details_found [OF assms]
  by (simp add: volume_calls_append get_volume_details_calls)

text \<open>
  C1, as the script has it. The claim says that the volume identifiers are deduplicated
  before the fetch; the script appends one identifier for each attachment with
  \<^verbatim>\<open>Ebs\<close> (lines 94 to 98) and removes nothing. With two matched instances that
  share \<^verbatim>\<open>vol-A\<close> the one volume query gets the identifier twice.
\<close>

theorem volume_ids_not_deduplicated:
  "volume_calls (fst (get_ec2_details
      (example_env (Inr shared_reservations) (Inr [example_volume ''vol-A''])) ''web-01'' None)) =
    [[''vol-A'', ''vol-A'']]"
  by (simp add: get_ec2_details_def example_env_def example_client_def shared_reservations_def
      example_instance_def get_bdms_def ebs_bdm_def ephemeral_bdm_def get_volume_details_def
      volume_calls_append)

text \<open>
  C1, amended. A run with a matched instance makes at most one volume query: none when
  no attachment has \<^verbatim>\<open>Ebs\<close>, and otherwise one, whose argument is the list of the
  volume identifiers of the attachments with \<^verbatim>\<open>Ebs\<close> of all matched instances, in
  order, an identifier once for each attachment that has it. Two returned instances
  whose attachments have the same identifier have the same content for it in
  \<^verbatim>\<open>VolumeDetails\<close>.
\<close>

theorem volume_fetch_once_with_duplicates:
  assumes "boto3_client w (region_or_default r) = Inr ec2"
    and "describe_instances ec2 (query_filters n) = Inr rs"
    and "concat (map Instances rs) \<noteq> []"
  shows "volume_calls (fst (get_ec2_details w n r)) =
      (if concat (map (\<lambda>i. bdm_volume_ids [] (get_bdms i)) (concat (map Instances rs))) = []
       then []
       else [concat (map (\<lambda>i. bdm_volume_ids [] (get_bdms i)) (concat (map Instances rs)))])
    \<and> (\<exists>out. snd (get_ec2_details w n r) = Inr (Some out)
        \<and> length out = length (concat (map Instances rs))
        \<and> (\<forall>j < length out. \<forall>k < length out. \<forall>v.
              v \<in> set (bdm_volume_ids [] (get_bdms (concat (map Instances rs) ! j))) \<and>
              v \<in> set (bdm_volume_ids [] (get_bdms (concat (map Instances rs) ! k))) \<longrightarrow>
              get_volume_info (out ! j) v = get_volume_info (out ! k) v))"
proof -
  let ?flat = "concat (map Instances rs)"
  define vd where "vd = snd (get_volume_details ec2
    (concat (map (\<lambda>i. bdm_volume_ids [] (get_bdms i)) ?flat)))"
  define out where "out = map (add_volume_details vd) ?flat"
  have res: "snd (get_ec2_details w n r) = Inr (Some out)"
    using get_ec2_details_found [OF assms] by (simp add: out_def vd_def)
  have len: "length out = length ?flat"
    by (simp add: out_def)
  have info: "get_volume_info (out ! k) v = dict_get vd v"
    if "k < length out" and "v \<in> set (bdm_volume_ids [] (get_bdms (?flat ! k)))" for k v
    using that by (simp add: out_def add_volume_details_info)
  have same: "\<forall>j < length out. \<forall>k < length out. \<forall>v.
              v \<in> set (bdm_volume_ids [] (get_bdms (?flat ! j))) \<and>
              v \<in> set (bdm_volume_ids [] (get_bdms (?flat ! k))) \<longrightarrow>
              get_volume_info (out ! j) v = get_volume_info (out ! k) v"
    by (intro allI impI) (simp add: info)
  have "\<exists>out. snd (get_ec2_details w n r) = Inr (Some out)
        \<and> length out = length ?flat
        \<and> (\<forall>j < length out. \<forall>k < length out. \<forall>v.
              v \<in> set (bdm_volume_ids [] (get_bdms (?flat ! j))) \<and>
              v \<in> set (bdm_volume_ids [] (get_bdms (?flat ! k))) \<longrightarrow>
              get_volume_info (out ! j) v = get_volume_info (out ! k) v)"
    by (rule exI [of _ out], intro conjI) (fact res, fact len, fact same)
  with volume_calls_found [OF assms] show ?thesis by (rule conjI)
qed

theorem volume_fetch_once_with_duplicates_witness:
  "volume_calls (fst (get_ec2_details
      (example_env (Inr shared_reservations) (Inr [example_volume ''vol-A''])) ''web-01'' None)) =
      [[''vol-A'', ''vol-A'']]
   \<and> (\<exists>out. snd (get_ec2_details
          (example_env (Inr shared_reservations) (Inr [example_volume ''vol-A''])) ''web-01'' None) =
          Inr (Some out)
        \<and> length out = 2
        \<and> get_volume_info (out ! 0) ''vol-A'' = get_volume_info (out ! 1) ''vol-A'')"
proof -
  let ?w = "example_env (Inr shared_reservations) (Inr [example_volume ''vol-A''])"
  let ?c = "example_client (Inr shared_reservations) (Inr [example_volume ''vol-A''])"
  let ?flat = "concat (map Instances shared_reservations)"
  have h1: "boto3_client ?w (region_or_default None) = Inr ?c"
    by (simp add: example_env_def)
  have h2: "describe_instances ?c (query_filters ''web-01'') = Inr shared_reservations"
    by (simp add: example_client_def)
  have h3: "?flat \<noteq> []"
    by (simp add: shared_reservations_def)
  have ids: "concat (map (\<lambda>i. bdm_volume_ids [] (get_bdms i)) ?flat) = [''vol-A'', ''vol-A'']"
    by (simp add: shared_reservations_def example_instance_def get_bdms_def ebs_bdm_def
        ephemeral_bdm_def)
  note t = volume_fetch_once_with_duplicates [OF h1 h2 h3]
  have calls: "volume_calls (fst (get_ec2_details ?w ''web-01'' None)) = [[''vol-A'', ''vol-A'']]"
    using conjunct1 [OF t] unfolding ids by simp
  from conjunct2 [OF t]
  obtain out where out: "snd (get_ec2_details ?w ''web-01'' None) = Inr (Some out)"
    and len: "length out = length ?flat"
    and same: "\<forall>j < length out. \<forall>k < length out. \<forall>v.
              v \<in> set (bdm_volume_ids [] (get_bdms (?flat ! j))) \<and>
              v \<in> set (bdm_volume_ids [] (get_bdms (?flat ! k))) \<longrightarrow>
              get_volume_info (out ! j) v = get_volume_info (out ! k) v"
    by blast
  have len2: "length out = 2"
    using len by (simp add: shared_reservations_def)
  have l0: "0 < length out" and l1: "1 < length out"
    using len2 by simp_all
  have a0: "''vol-A'' \<in> set (bdm_volume_ids [] (get_bdms (?flat ! 0)))"
    by (simp add: shared_reservations_def example_instance_def get_bdms_def ebs_bdm_def
        ephemeral_bdm_def)
  have a1: "''vol-A'' \<in> set (bdm_volume_ids [] (get_bdms (?flat ! 1)))"
    by (simp add: shared_reservations_def example_instance_def get_bdms_def ebs_bdm_def
        ephemeral_bdm_def)
  have "get_volume_info (out ! 0) ''vol-A'' = get_volume_info (out ! 1) ''vol-A''"
    using same [rule_format, OF l0 l1 conjI [OF a0 a1]] .
  with calls out len2 show ?thesis by blast
qed

lemma get_ec2_details_instance_calls:
  "instance_calls (fst (get_ec2_details w n r)) =
    (case boto3_client w (region_or_default r) of Inl e \<Rightarrow> [] | Inr ec2 \<Rightarrow> [query_filters n])"
  by (simp add: get_ec2_details_def Let_def case_prod_beta instance_calls_append
      get_volume_details_calls split: sum.split)

lemma passes_filter_add_volume_details:
  "passes_filter f (add_volume_details vd i) = passes_filter f i"
  by (simp add: passes_filter_def add_volume_details_def)

text \<open>
  C8. A run that gets a client makes exactly one instance query, with two filters: the
  tag \<^verbatim>\<open>Name\<close> with the given name as its only value, and the state name with
  the values running, stopped, stopping, pending and shutting-down. When the instances
  of the response pass these filters, every instance returned passes them, so its state
  is one of the five and is not terminated.
\<close>

theorem query_excludes_terminated:
  "instance_calls (fst (get_ec2_details w n r)) =
      (case boto3_client w (region_or_default r) of
         Inl e \<Rightarrow> []
       | Inr ec2 \<Rightarrow>
           [[\<lparr> Name = ''tag:Name'', Values = [n] \<rparr>,
             \<lparr> Name = ''instance-state-name'',
               Values = [''running'', ''stopped'', ''stopping'', ''pending'', ''shutting-down''] \<rparr>]])
   \<and> (\<forall>ec2 rs out.
         boto3_client w (region_or_default r) = Inr ec2 \<longrightarrow>
         describe_instances ec2 (query_filters n) = Inr rs \<longrightarrow>
         (\<forall>i \<in> set (concat (map Instances rs)). \<forall>f \<in> set (query_filters n). passes_filter f i) \<longrightarrow>
         snd (get_ec2_details w n r) = Inr (Some out) \<longrightarrow>
         (\<forall>i \<in> set out.
            (\<forall>f \<in> set (query_filters n). passes_filter f i)
          \<and> State_Name i \<in>
              {''running'', ''stopped'', ''stopping'', ''pending'', ''shutting-down''}
          \<and> State_Name i \<noteq> ''terminated''))"
proof (intro conjI allI impI)
  show "instance_calls (fst (get_ec2_details w n r)) =
      (case boto3_client w (region_or_default r) of
         Inl e \<Rightarrow> []
       | Inr ec2 \<Rightarrow>
           [[\<lparr> Name = ''tag:Name'', Values = [n] \<rparr>,
             \<lparr> Name = ''instance-state-name'',
               Values = [''running'', ''stopped'', ''stopping'', ''pending'', ''shutting-down''] \<rparr>]])"
    unfolding get_ec2_details_instance_calls by (simp add: query_filters_def split: sum.split)
next
  fix ec2 rs out
  assume h1: "boto3_client w (region_or_default r) = Inr ec2"
    and h2: "describe_instances ec2 (query_filters n) = Inr rs"
    and pass: "\<forall>i \<in> set (concat (map Instances rs)). \<forall>f \<in> set (query_filters n). passes_filter f i"
    and res: "snd (get_ec2_details w n r) = Inr (Some out)"
  have h3: "concat (map Instances rs) \<noteq> []"
  proof
    assume "concat (map Instances rs) = []"
    from get_ec2_details_not_found [OF h1 h2 this] res show False by simp
  qed
  define vd where "vd = snd (get_volume_details ec2
    (concat (map (\<lambda>i. bdm_volume_ids [] (get_bdms i)) (concat (map Instances rs)))))"
  have out: "out = map (add_volume_details vd) (concat (map Instances rs))"
    using get_ec2_details_found [OF h1 h2 h3] res by (simp add: vd_def)
  show "\<forall>i \<in> set out.
            (\<forall>f \<in> set (query_filters n). passes_filter f i)
          \<and> State_Name i \<in>
              {''running'', ''stopped'', ''stopping'', ''pending'', ''shutting-down''}
          \<and> State_Name i \<noteq> ''terminated''"
  proof
    fix i assume "i \<in> set out"
    with out obtain i0 where i0: "i0 \<in> set (concat (map Instances rs))"
      and eq: "i = add_volume_details vd i0"
      by auto
    from pass i0 have "\<forall>f \<in> set (query_filters n). passes_filter f i0" by blast
    then have p: "\<forall>f \<in> set (query_filters n). passes_filter f i"
      by (simp add: eq passes_filter_add_volume_details)
    then have s: "State_Name i \<in>
        {''running'', ''stopped'', ''stopping'', ''pending'', ''shutting-down''}"
      by (simp add: query_filters_def passes_filter_def)
    then have "State_Name i \<noteq> ''terminated''"
      by auto
    with p s show "(\<forall>f \<in> set (query_filters n). passes_filter f i)
          \<and> State_Name i \<in>
              {''running'', ''stopped'', ''stopping'', ''pending'', ''shutting-down''}
          \<and> State_Name i \<noteq> ''terminated''"
      by blast
  qed
qed

theorem query_excludes_terminated_witness:
  "instance_calls (fst (get_ec2_details
      (example_env (Inr shared_reservations) (Inr [example_volume ''vol-A''])) ''web-01'' None)) =
      [[\<lparr> Name = ''tag:Name'', Values = [''web-01''] \<rparr>,
        \<lparr> Name = ''instance-state-name'',
          Values = [''running'', ''stopped'', ''stopping'', ''pending'', ''shutting-down''] \<rparr>]]
   \<and> (\<exists>out. snd (get_ec2_details
          (example_env (Inr shared_reservations) (Inr [example_volume ''vol-A''])) ''web-01'' None) =
          Inr (Some out)
        \<and> out \<noteq> []
        \<and> State_Name (hd out) \<noteq> ''terminated'')"
proof -
  let ?w = "example_env (Inr shared_reservations) (Inr [example_volume ''vol-A''])"
  let ?c = "example_client (Inr shared_reservations) (Inr [example_volume ''vol-A''])"
  let ?flat = "concat (map Instances shared_reservations)"
  have h1: "boto3_client ?w (region_or_default None) = Inr ?c"
    by (simp add: example_env_def)
  have h2: "describe_instances ?c (query_filters ''web-01'') = Inr shared_reservations"
    by (simp add: example_client_def)
  have h3: "?flat \<noteq> []"
    by (simp add: shared_reservations_def)
  have pass: "\<forall>i \<in> set ?flat. \<forall>f \<in> set (query_filters ''web-01''). passes_filter f i"
    by (simp add: shared_reservations_def query_filters_def passes_filter_def
        example_instance_def name_tag_def)
  obtain out where res: "snd (get_ec2_details ?w ''web-01'' None) = Inr (Some out)"
    and ne: "out \<noteq> []"
    using get_ec2_details_found [OF h1 h2 h3] h3 by simp
  note t = query_excludes_terminated [of ?w "''web-01''" None]
  have calls: "instance_calls (fst (get_ec2_details ?w ''web-01'' None)) =
      [[\<lparr> Name = ''tag:Name'', Values = [''web-01''] \<rparr>,
        \<lparr> Name = ''instance-state-name'',
          Values = [''running'', ''stopped'', ''stopping'', ''pending'', ''shutting-down''] \<rparr>]]"
    using conjunct1 [OF t] h1 by simp
  have mem: "hd out \<in> set out"
    using ne by simp
  have "State_Name (hd out) \<noteq> ''terminated''"
    using conjunct2 [OF t, rule_format, OF h1 h2 pass [rule_format] res mem] by blast
  with calls res ne show ?thesis by blast
qed

section \<open>The report\<close>

lemma format_loop_append:
  "format_loop n k (xs @ ys) = format_loop n k xs @ format_loop n (k + length xs) ys"
  by (induction xs arbitrary: k) simp_all

lemma format_ec2_details_split:
  assumes "k < length insts"
  shows "format_ec2_details insts =
    format_loop (length insts) 1 (take k insts) @
    instance_lines (length insts) (Suc k) (insts ! k) @
    format_loop (length insts) (k + 2) (drop (Suc k) insts)"
proof -
  have "insts = take k insts @ insts ! k # drop (Suc k) insts"
    using assms by (simp add: id_take_nth_drop)
  then have "format_loop (length insts) 1 insts =
      format_loop (length insts) 1 (take k insts @ insts ! k # drop (Suc k) insts)"
    by simp
  also have "\<dots> = format_loop (length insts) 1 (take k insts) @
      instance_lines (length insts) (Suc k) (insts ! k) @
      format_loop (length insts) (k + 2) (drop (Suc k) insts)"
    using assms by (simp add: format_loop_append min_def)
  finally show ?thesis
    by (simp add: format_ec2_details_def)
qed

text \<open>
  C10. For an instance without \<^verbatim>\<open>Platform\<close>, at any place of the list, the lines
  printed for it are the header when there are several instances, then the five lines of
  identifier, type, state, launch time and architecture, then the line
  \<^verbatim>\<open>Platform: Linux/Unix\<close>, then the rest of its block.
\<close>

theorem platform_line_default:
  assumes "k < length insts" and "Platform (insts ! k) = None"
  shows "format_ec2_details insts =
    format_loop (length insts) 1 (take k insts) @
    header_lines (length insts) (Suc k) @
    [Print (''Instance ID: '' @ InstanceId (insts ! k)),
     Print (''Instance Type: '' @ InstanceType (insts ! k)),
     Print (''State: '' @ State_Name (insts ! k)),
     Print (''Launch Time: '' @ str_datetime (LaunchTime (insts ! k))),
     Print (''Architecture: '' @ Architecture (insts ! k)),
     Print ''Platform: Linux/Unix''] @
    network_lines (insts ! k) @ security_group_lines (insts ! k) @ tag_lines (insts ! k) @
    storage_lines (insts ! k) @ placement_lines (insts ! k) @
    format_loop (length insts) (k + 2) (drop (Suc k) insts)"
  unfolding format_ec2_details_split [OF assms(1)]
  using assms(2) by (simp add: instance_lines_def basic_lines_def)

theorem platform_line_default_witness:
  "format_ec2_details [example_instance ''i-1'' None name_tag None] ! 5 =
    Print ''Platform: Linux/Unix''"
  using platform_line_default [of 0 "[example_instance ''i-1'' None name_tag None]"]
  by (simp add: example_instance_def header_lines_def)



text \<open>
  The provider leaves the key \<^verbatim>\<open>Tags\<close> out for an instance without tags, and the
  query of this script asks for instances that carry the tag \<^verbatim>\<open>Name\<close>: a key
  that is present with an empty list is not part of its answers. Given such a
  dictionary, the loop of line 155 prints nothing after the header.
\<close>

lemma tag_lines_empty_list:
  "Tags i = Some [] \<Longrightarrow> tag_lines i = [Print (CHR 0x0A # ''Tags:'')]"
  by (simp add: tag_lines_def)

lemma json_escape_length: "1 \<le> length (json_escape c)"
  by (simp add: json_escape_def)

lemma json_escape_concat_length: "length s \<le> length (concat (map json_escape s))"
proof (induction s)
  case Nil
  show ?case by simp
next
  case (Cons c s)
  then show ?case using json_escape_length [of c] by simp
qed

lemma timestamp_never_plain:
  "timestamp (build_output_data a (i # is)) \<noteq> Some (str_datetime (LaunchTime i))"
proof
  assume "timestamp (build_output_data a (i # is)) = Some (str_datetime (LaunchTime i))"
  then have "json_dumps_default_str (LaunchTime i) = str_datetime (LaunchTime i)"
    by (simp add: build_output_data_def)
  then have "length (json_dumps_default_str (LaunchTime i)) = length (str_datetime (LaunchTime i))"
    by simp
  then show False
    using json_escape_concat_length [of "str_datetime (LaunchTime i)"]
    by (simp add: json_dumps_default_str_def)
qed

text \<open>
  C2, at one matched instance launched at 2024-01-01 00:00:00+00:00. The object written
  has as \<^verbatim>\<open>timestamp\<close> the result of \<^verbatim>\<open>json.dumps\<close> on the launch time (line
  237): the text of the launch time between two double quote characters, where the claim
  says the launch time itself. For every list of instances the two differ
  (\<open>timestamp_never_plain\<close>).
\<close>

theorem timestamp_double_encoded:
  "fst (main (example_env (Inr [\<lparr> Instances = [example_instance ''i-1'' None name_tag None] \<rparr>])
               (Inr [])) example_args) ! 3 =
     Json_dump ''output/web-01_details.json''
       (build_output_data example_args
          [example_instance ''i-1'' None name_tag None \<lparr> VolumeDetails := Some [] \<rparr>])
   \<and> timestamp (build_output_data example_args
          [example_instance ''i-1'' None name_tag None \<lparr> VolumeDetails := Some [] \<rparr>]) =
     Some (CHR 0x22 # ''2024-01-01 00:00:00+00:00'' @ [CHR 0x22])
   \<and> str_datetime (LaunchTime (example_instance ''i-1'' None name_tag None)) =
     ''2024-01-01 00:00:00+00:00''"
proof -
  let ?i = "example_instance ''i-1'' None name_tag None"
  let ?w = "example_env (Inr [\<lparr> Instances = [?i] \<rparr>]) (Inr [])"
  have get: "get_ec2_details ?w ''web-01'' None =
      ([Call_describe_instances (query_filters ''web-01'')],
       Inr (Some [?i\<lparr> VolumeDetails := Some [] \<rparr>]))"
    by (simp add: get_ec2_details_def example_env_def example_client_def
        get_volume_details_def add_volume_details_def get_bdms_def example_instance_def)
  have path: "output_path example_args = ''output/web-01_details.json''"
    by (simp add: output_path_def example_args_def replace_char_def)
  have "fst (main ?w example_args) ! 3 =
      Json_dump ''output/web-01_details.json''
        (build_output_data example_args [?i\<lparr> VolumeDetails := Some [] \<rparr>])"
    using get path
    by (simp add: main_def report_def search_lines_def example_args_def example_env_def)
  moreover have "timestamp (build_output_data example_args [?i\<lparr> VolumeDetails := Some [] \<rparr>]) =
      Some (CHR 0x22 # ''2024-01-01 00:00:00+00:00'' @ [CHR 0x22])"
    by (simp add: build_output_data_def json_dumps_default_str_def json_escape_def
        example_instance_def)
  moreover have "str_datetime (LaunchTime ?i) = ''2024-01-01 00:00:00+00:00''"
    by (simp add: example_instance_def)
  ultimately show ?thesis by blast
qed

end
